theory Spec2Isabelle
  imports Complex_Main "HOL-Library.Word" "HOL-Library.Monad_Syntax" "HOL-Library.Sublist"
begin

unbundle bit_operations_syntax

section \<open>Errors and the environment of the service module\<close>

text \<open>
  The module \<^verbatim>\<open>src/services/apiService.js\<close> throws JavaScript exceptions and rejects
  promises. Both are values here: every operation that can throw returns
  \<open>error + 'a\<close>, with \<open>Inl\<close> for the exception.
\<close>

datatype error =
    ApiRequestFailed nat string
  | Rejected string
  | InvalidCharacterError
  | RangeError
  | SyntaxError
  | TypeError
  | Error string

text \<open>
  \<open>ApiRequestFailed status errorText\<close> is the
  \<^verbatim>\<open>new Error(`API Request failed with status ${response.status}: ${errorText}`)\<close>
  of \<^verbatim>\<open>fetchWithRetry\<close>; \<open>Rejected reason\<close> is a rejection of \<^verbatim>\<open>fetch\<close>,
  \<^verbatim>\<open>response.text()\<close> or \<^verbatim>\<open>response.json()\<close>; the next four are the platform's
  exceptions of \<^verbatim>\<open>atob\<close>, of the typed-array and \<^verbatim>\<open>DataView\<close> operations, of
  \<^verbatim>\<open>JSON.parse\<close> and of reading a property of \<^verbatim>\<open>null\<close>; \<open>Error message\<close> is any other \<^verbatim>\<open>new Error(message)\<close>.
  Strings are lists of 8-bit characters.
\<close>

text \<open>
  A \<^verbatim>\<open>Response\<close>: its status code and what reading its body as text or as JSON gives.
  The type \<open>'a\<close> is the type of the parsed JSON body.
\<close>

record 'a response =
  status :: nat
  text_body :: "error + string"
  json_body :: "error + 'a"

definition ok :: "'a response \<Rightarrow> bool" where
  "ok r = (200 \<le> status r \<and> status r \<le> 299)"

text \<open>
  The world outside the module: \<open>network w i\<close> is the outcome of the \<open>i\<close>-th call of
  \<^verbatim>\<open>fetch\<close> (a rejection or a response), \<open>entropy w i\<close> the value of the \<open>i\<close>-th
  call of \<^verbatim>\<open>Math.random()\<close>; \<open>fetched\<close> and \<open>drawn\<close> count the calls made so far, and
  \<open>timers\<close> lists, in order, the delays in milliseconds that were passed to
  \<^verbatim>\<open>setTimeout\<close> and awaited.

  \<^verbatim>\<open>Math.random()\<close> returns a double in the half-open interval from 0 to 1, and the
  code computes a delay in doubles: the product \<^verbatim>\<open>Math.random() * 1000\<close> and the sum
  with \<^verbatim>\<open>Math.pow(2, retries) * 1000\<close> are each rounded to the nearest double. Rounding
  is monotone and leaves \<open>2 ^ retries * 1000\<close> and \<open>2 ^ retries * 1000 + 1000\<close>
  as they are, so the delay that the code computes lies between these two numbers and
  can be the larger one: for \<^verbatim>\<open>Math.random()\<close> just below 1 and \<open>retries = 2\<close> it is
  exactly 5000. The model computes the delay over the real numbers. To cover every
  delay that the code can compute, the properties below admit every \<open>entropy w i\<close> in
  the closed interval from 0 to 1, and they bound delays by \<open>\<le>\<close>, never by \<open><\<close>.
\<close>

record 'a world =
  network :: "nat \<Rightarrow> error + 'a response"
  entropy :: "nat \<Rightarrow> real"
  fetched :: nat
  drawn :: nat
  timers :: "real list"

definition fetch :: "'a world \<Rightarrow> (error + 'a response) \<times> 'a world" where
  "fetch w = (network w (fetched w), w\<lparr>fetched := Suc (fetched w)\<rparr>)"

definition Math_random :: "'a world \<Rightarrow> real \<times> 'a world" where
  "Math_random w = (entropy w (drawn w), w\<lparr>drawn := Suc (drawn w)\<rparr>)"

definition sleep :: "'a world \<Rightarrow> real \<Rightarrow> 'a world" where
  "sleep w delay = w\<lparr>timers := timers w @ [delay]\<rparr>"

section \<open>The retrying invoker\<close>

definition maxRetries :: nat where
  "maxRetries = 3"

text \<open>
  The two statements that \<^verbatim>\<open>fetchWithRetry\<close> runs before each recursive call, in its
  \<^verbatim>\<open>try\<close> block and again in its \<^verbatim>\<open>catch\<close> block:
  \<^verbatim>\<open>const delay = Math.pow(2, retries) * 1000 + Math.random() * 1000;\<close>
  \<^verbatim>\<open>await new Promise(resolve => setTimeout(resolve, delay));\<close>
\<close>

definition backoff :: "'a world \<Rightarrow> nat \<Rightarrow> 'a world" where
  "backoff w retries =
     (let (r, w1) = Math_random w;
          delay = 2 ^ retries * 1000 + r * 1000
      in sleep w1 delay)"

text \<open>
  How the \<^verbatim>\<open>try\<close> block ends: it returns the promise of \<^verbatim>\<open>response.json()\<close>, or it
  has slept and returns the promise of the recursive call, or it throws.
\<close>

datatype 'a completion =
    Returns "error + 'a"
  | Retries
  | Throws error

definition try_block :: "'a world \<Rightarrow> nat \<Rightarrow> 'a completion \<times> 'a world" where
  "try_block w retries =
     (let (outcome, w1) = fetch w in
      case outcome of
        Inl e \<Rightarrow> (Throws e, w1)
      | Inr response \<Rightarrow>
          if \<not> ok response then
            if status response = 429 \<and> retries < maxRetries then
              (Retries, backoff w1 retries)
            else
              (case text_body response of
                 Inl e \<Rightarrow> (Throws e, w1)
               | Inr errorText \<Rightarrow> (Throws (ApiRequestFailed (status response) errorText), w1))
          else (Returns (json_body response), w1))"

lemma try_block_Retries:
  "try_block w retries = (Retries, w1) \<Longrightarrow> retries < maxRetries"
  by (auto simp: try_block_def fetch_def split: sum.splits if_splits)

text \<open>
  \<^verbatim>\<open>fetchWithRetry(url, options, retries = 0)\<close>. Both recursive calls are returned
  without \<^verbatim>\<open>await\<close>, so a failure of the inner call is the failure of the outer one
  and is not caught again. An error thrown inside the \<^verbatim>\<open>try\<close> block, the
  \<^verbatim>\<open>throw new Error(...)\<close> for a response that is not ok included, is caught by the
  \<^verbatim>\<open>catch\<close> block of the same call.
\<close>

function fetchWithRetry :: "'a world \<Rightarrow> nat \<Rightarrow> (error + 'a) \<times> 'a world" where
  "fetchWithRetry w retries =
     (case try_block w retries of
        (Returns r, w1) \<Rightarrow> (r, w1)
      | (Retries, w1) \<Rightarrow> fetchWithRetry w1 (retries + 1)
      | (Throws error, w1) \<Rightarrow>
          if retries < maxRetries then fetchWithRetry (backoff w1 retries) (retries + 1)
          else (Inl error, w1))"
  by pat_completeness auto
termination
  by (relation "measure (\<lambda>(w, retries). maxRetries - retries)")
     (auto dest: try_block_Retries [OF sym])

declare fetchWithRetry.simps [simp del]

text \<open>
  The delays of \<open>n\<close> consecutive backoffs that start at retry count \<open>retries\<close>,
  with the random numbers that the world \<open>w\<close> has in store.
\<close>

definition delays :: "'a world \<Rightarrow> nat \<Rightarrow> nat \<Rightarrow> real list" where
  "delays w retries n =
     map (\<lambda>k. 2 ^ (retries + k) * 1000 + entropy w (drawn w + k) * 1000) [0..<n]"

text \<open>
  Two concrete worlds. In \<open>flaky_server\<close> the first request is answered with status
  500 and every later one with status 200. In \<open>rate_limited jitter\<close> every request is
  answered with status 429 and \<^verbatim>\<open>Math.random()\<close> always returns \<open>jitter\<close>.
\<close>

definition flaky_server :: "string world" where
  "flaky_server =
     \<lparr>network = (\<lambda>i. if i = 0
          then Inr \<lparr>status = 500, text_body = Inr ''Internal Server Error'',
                    json_body = Inl (Rejected ''Unexpected token'')\<rparr>
          else Inr \<lparr>status = 200, text_body = Inr ''{}'', json_body = Inr ''{}''\<rparr>),
      entropy = (\<lambda>i. 1 / 4), fetched = 0, drawn = 0, timers = []\<rparr>"

definition rate_limited :: "real \<Rightarrow> unit world" where
  "rate_limited jitter =
     \<lparr>network = (\<lambda>i. Inr \<lparr>status = 429, text_body = Inr ''slow down'', json_body = Inr ()\<rparr>),
      entropy = (\<lambda>i. jitter), fetched = 0, drawn = 0, timers = []\<rparr>"

section \<open>Buffers and views\<close>

text \<open>
  An \<^verbatim>\<open>ArrayBuffer\<close> is a list of bytes, and a \<^verbatim>\<open>DataView\<close> on it is the same list.
  A fresh buffer is filled with zeros. The setters of a view throw a \<^verbatim>\<open>RangeError\<close>
  when the value does not fit between the offset and the end of the view: that is the
  result \<open>None\<close>. Numbers are converted modulo the width of the field, as
  \<^verbatim>\<open>ToUint8\<close>, \<^verbatim>\<open>ToUint16\<close>, \<^verbatim>\<open>ToInt16\<close> and \<^verbatim>\<open>ToUint32\<close> do with integers.
\<close>

type_synonym byte = "8 word"

definition ArrayBuffer :: "nat \<Rightarrow> byte list" where
  "ArrayBuffer n = replicate n 0"

definition SetViewValue :: "byte list \<Rightarrow> nat \<Rightarrow> byte list \<Rightarrow> byte list option" where
  "SetViewValue view byteOffset rawBytes =
     (if byteOffset + length rawBytes \<le> length view
      then Some (take byteOffset view @ rawBytes @ drop (byteOffset + length rawBytes) view)
      else None)"

definition raw16 :: "16 word \<Rightarrow> bool \<Rightarrow> byte list" where
  "raw16 x littleEndian =
     (let le = [ucast x, ucast (drop_bit 8 x)] in if littleEndian then le else rev le)"

definition raw32 :: "32 word \<Rightarrow> bool \<Rightarrow> byte list" where
  "raw32 x littleEndian =
     (let le = [ucast x, ucast (drop_bit 8 x), ucast (drop_bit 16 x), ucast (drop_bit 24 x)]
      in if littleEndian then le else rev le)"

definition setUint8 :: "byte list \<Rightarrow> nat \<Rightarrow> nat \<Rightarrow> byte list option" where
  "setUint8 view byteOffset v = SetViewValue view byteOffset [word_of_nat v]"

definition setUint16 :: "byte list \<Rightarrow> nat \<Rightarrow> nat \<Rightarrow> bool \<Rightarrow> byte list option" where
  "setUint16 view byteOffset v littleEndian =
     SetViewValue view byteOffset (raw16 (word_of_nat v) littleEndian)"

definition setInt16 :: "byte list \<Rightarrow> nat \<Rightarrow> int \<Rightarrow> bool \<Rightarrow> byte list option" where
  "setInt16 view byteOffset v littleEndian =
     SetViewValue view byteOffset (raw16 (word_of_int v) littleEndian)"

definition setUint32 :: "byte list \<Rightarrow> nat \<Rightarrow> nat \<Rightarrow> bool \<Rightarrow> byte list option" where
  "setUint32 view byteOffset v littleEndian =
     SetViewValue view byteOffset (raw32 (word_of_nat v) littleEndian)"

text \<open>
  The reading side of a view, used to say what a field of the output holds.
\<close>

definition GetViewValue :: "byte list \<Rightarrow> nat \<Rightarrow> nat \<Rightarrow> byte list option" where
  "GetViewValue view byteOffset elementSize =
     (if byteOffset + elementSize \<le> length view
      then Some (take elementSize (drop byteOffset view))
      else None)"

fun unsigned_le :: "byte list \<Rightarrow> nat" where
  "unsigned_le [] = 0"
| "unsigned_le (b # bs) = unat b + 256 * unsigned_le bs"

definition getUint16 :: "byte list \<Rightarrow> nat \<Rightarrow> bool \<Rightarrow> nat option" where
  "getUint16 view byteOffset littleEndian =
     map_option (\<lambda>rawBytes. unsigned_le (if littleEndian then rawBytes else rev rawBytes))
       (GetViewValue view byteOffset 2)"

definition getUint32 :: "byte list \<Rightarrow> nat \<Rightarrow> bool \<Rightarrow> nat option" where
  "getUint32 view byteOffset littleEndian =
     map_option (\<lambda>rawBytes. unsigned_le (if littleEndian then rawBytes else rev rawBytes))
       (GetViewValue view byteOffset 4)"

text \<open>
  \<^verbatim>\<open>new Int16Array(buffer)\<close>: a \<^verbatim>\<open>RangeError\<close> when the byte length is odd; the
  elements are read in the byte order of the platform, taken to be little-endian.
\<close>

fun int16_elements :: "byte list \<Rightarrow> 16 word list" where
  "int16_elements (lo # hi # rest) = (ucast lo OR push_bit 8 (ucast hi)) # int16_elements rest"
| "int16_elements rest = []"

definition Int16Array :: "byte list \<Rightarrow> error + 16 word list" where
  "Int16Array buffer =
     (if length buffer mod 2 \<noteq> 0 then Inl RangeError else Inr (int16_elements buffer))"

section \<open>The WAV encoder\<close>

text \<open>
  The local function \<^verbatim>\<open>writeString(view, offset, string)\<close> of \<^verbatim>\<open>pcmToWav\<close>, and
  the loop that writes the samples, \<^verbatim>\<open>view.setInt16(offset, pcm16[i], true); offset += 2\<close>
  for \<open>i\<close> from 0 to \<^verbatim>\<open>pcm16.length - 1\<close>. Reading the element \<^verbatim>\<open>pcm16[i]\<close> of the
  \<^verbatim>\<open>Int16Array\<close> gives the signed value of the 16-bit word.
\<close>

fun writeString :: "byte list \<Rightarrow> nat \<Rightarrow> string \<Rightarrow> byte list option" where
  "writeString view offset [] = Some view"
| "writeString view offset (c # cs) =
     do { view1 \<leftarrow> setUint8 view offset (of_char c); writeString view1 (offset + 1) cs }"

fun write_samples :: "byte list \<Rightarrow> nat \<Rightarrow> 16 word list \<Rightarrow> byte list option" where
  "write_samples view offset [] = Some view"
| "write_samples view offset (s # ss) =
     do { view1 \<leftarrow> setInt16 view offset (sint s) True; write_samples view1 (offset + 2) ss }"

definition byteLength :: "16 word list \<Rightarrow> nat" where
  "byteLength pcm16 = 2 * length pcm16"

definition pcmToWav :: "16 word list \<Rightarrow> nat \<Rightarrow> byte list option" where
  "pcmToWav pcm16 sampleRate =
     (let numChannels = 1;
          bytesPerSample = 2;
          blockAlign = numChannels * bytesPerSample;
          byteRate = sampleRate * blockAlign;
          buffer = ArrayBuffer (44 + byteLength pcm16)
      in do {
        view \<leftarrow> writeString buffer 0 ''RIFF'';
        view \<leftarrow> setUint32 view 4 (36 + byteLength pcm16) True;
        view \<leftarrow> writeString view 8 ''WAVE'';
        view \<leftarrow> writeString view 12 ''fmt '';
        view \<leftarrow> setUint32 view 16 16 True;
        view \<leftarrow> setUint16 view 20 1 True;
        view \<leftarrow> setUint16 view 22 numChannels True;
        view \<leftarrow> setUint32 view 24 sampleRate True;
        view \<leftarrow> setUint32 view 28 byteRate True;
        view \<leftarrow> setUint16 view 32 blockAlign True;
        view \<leftarrow> setUint16 view 34 16 True;
        view \<leftarrow> writeString view 36 ''data'';
        view \<leftarrow> setUint32 view 40 (byteLength pcm16) True;
        write_samples view 44 pcm16
      })"

text \<open>
  The result of \<^verbatim>\<open>pcmToWav\<close> is the content of the \<^verbatim>\<open>Blob\<close> it returns (whose
  type is always \<^verbatim>\<open>audio/wav\<close>). The sample rate is a natural number.

  The canonical layout that the output is compared with: the 44 header bytes for a given
  number of samples and sample rate, and the samples as little-endian byte pairs.
\<close>

definition wav_header :: "nat \<Rightarrow> nat \<Rightarrow> byte list" where
  "wav_header sampleCount sampleRate =
     map of_char ''RIFF'' @ raw32 (word_of_nat (36 + 2 * sampleCount)) True
     @ map of_char ''WAVEfmt '' @ raw32 16 True @ raw16 1 True @ raw16 1 True
     @ raw32 (word_of_nat sampleRate) True @ raw32 (word_of_nat (sampleRate * 2)) True
     @ raw16 2 True @ raw16 16 True @ map of_char ''data''
     @ raw32 (word_of_nat (2 * sampleCount)) True"

definition payload :: "16 word list \<Rightarrow> byte list" where
  "payload pcm16 = concat (map (\<lambda>s. raw16 s True) pcm16)"

section \<open>Responses of the generative endpoints\<close>

text \<open>
  The JSON bodies that the endpoints answer with, as far as the module reads them. A
  field that may be missing has an option type; \<open>None\<close> is JavaScript's
  \<^verbatim>\<open>undefined\<close>.
\<close>

record inline_data =
  data :: "string option"
  mimeType :: "string option"

record part =
  text' :: "string option"
  inlineData :: "inline_data option"

record content_body =
  parts :: "part list option"

record web_source =
  uri :: "string option"
  title :: "string option"

record attribution =
  web :: "web_source option"

record grounding_metadata =
  groundingAttributions :: "attribution list option"

record candidate =
  content :: "content_body option"
  groundingMetadata :: "grounding_metadata option"

record gemini_result =
  candidates :: "candidate list option"

text \<open>
  The body of an image response is read without optional chaining, as
  \<^verbatim>\<open>result.predictions\<close> and \<^verbatim>\<open>result.predictions[0].bytesBase64Encoded\<close>, so it
  matters where JSON has \<^verbatim>\<open>null\<close> in place of an object: the body of a response is an
  \<open>imagen_result option\<close> and an entry of \<^verbatim>\<open>predictions\<close> is a
  \<open>prediction option\<close>, with \<open>None\<close> for \<^verbatim>\<open>null\<close>. In the fields
  \<^verbatim>\<open>predictions\<close> and \<^verbatim>\<open>bytesBase64Encoded\<close>, \<open>None\<close> is a missing field or
  \<^verbatim>\<open>null\<close>: both are falsy.
\<close>

record prediction =
  bytesBase64Encoded :: "string option"

record imagen_result =
  predictions :: "prediction option list option"

text \<open>
  \<^verbatim>\<open>xs?.[i]\<close> on an array that may be missing, and the truth value that JavaScript
  gives a string that may be missing: \<^verbatim>\<open>undefined\<close> and the empty string are falsy.
\<close>

definition element :: "'a list option \<Rightarrow> nat \<Rightarrow> 'a option" where
  "element xs i = (case xs of None \<Rightarrow> None | Some ys \<Rightarrow> if i < length ys then Some (ys ! i) else None)"

definition truthy :: "string option \<Rightarrow> bool" where
  "truthy s = (case s of None \<Rightarrow> False | Some t \<Rightarrow> t \<noteq> [])"

text \<open>
  \<^verbatim>\<open>result.candidates?.[0]?.content?.parts?.[0]\<close>, the expression that three of the
  four generators start from.
\<close>

definition first_part :: "gemini_result \<Rightarrow> part option" where
  "first_part result =
     element (candidates result) 0 \<bind> content \<bind> (\<lambda>c. element (parts c) 0)"

section \<open>The text generator\<close>

record text_reply =
  reply_text :: string
  sources :: "web_source list"

definition generateTextContent ::
  "gemini_result world \<Rightarrow> string \<Rightarrow> string \<Rightarrow> bool
     \<Rightarrow> (error + text_reply) \<times> gemini_result world"
where
  "generateTextContent w userQuery systemInstruction useGrounding =
     (case fetchWithRetry w 0 of
        (Inl e, w1) \<Rightarrow> (Inl e, w1)
      | (Inr result, w1) \<Rightarrow>
          let failed =
                \<lparr>reply_text = ''Error: Could not generate a response. Please check the API status.'',
                 sources = []\<rparr>
          in case element (candidates result) 0 of
               None \<Rightarrow> (Inr failed, w1)
             | Some candidate \<Rightarrow>
                 (case content candidate \<bind> (\<lambda>c. element (parts c) 0) \<bind> text' of
                    None \<Rightarrow> (Inr failed, w1)
                  | Some text \<Rightarrow>
                      if text = [] then (Inr failed, w1)
                      else
                        let sources =
                              (case groundingMetadata candidate \<bind> groundingAttributions of
                                 None \<Rightarrow> []
                               | Some attributions \<Rightarrow>
                                   filter (\<lambda>source. truthy (uri source) \<and> truthy (title source))
                                     (map (\<lambda>attribution.
                                             \<lparr>uri = web attribution \<bind> uri,
                                              title = web attribution \<bind> title\<rparr>)
                                        attributions))
                        in (Inr \<lparr>reply_text = text, sources = sources\<rparr>, w1)))"

section \<open>The structured-content generator\<close>

text \<open>
  The values of \<^verbatim>\<open>JSON.parse\<close>. The generator returns whatever the parser returns, or
  a literal array of its own. \<^verbatim>\<open>JSON.parse\<close> itself is a parameter of the model: a
  function from the text to a value or a \<^verbatim>\<open>SyntaxError\<close>.
\<close>

datatype json =
    JNull
  | JBool bool
  | JNumber real
  | JString string
  | JArray "json list"
  | JObject "(string \<times> json) list"

definition error_item :: json where
  "error_item =
     JObject [(''type'', JString ''error''),
              (''question'', JString ''Error generating study material.''),
              (''answer'', JString ''Please try again with a clearer prompt.'')]"

definition generateStructuredStudyContent ::
  "(string \<Rightarrow> error + json) \<Rightarrow> gemini_result world \<Rightarrow> string \<Rightarrow> string
     \<Rightarrow> (error + json) \<times> gemini_result world"
where
  "generateStructuredStudyContent JSON_parse w userQuery systemInstruction =
     (case fetchWithRetry w 0 of
        (Inl e, w1) \<Rightarrow> (Inl e, w1)
      | (Inr result, w1) \<Rightarrow>
          let jsonString = first_part result \<bind> text';
              attempt =
                (if truthy jsonString then JSON_parse (the jsonString)
                 else Inl (Error ''Received empty or malformed JSON string.''))
          in case attempt of
               Inr parsed \<Rightarrow> (Inr parsed, w1)
             | Inl e \<Rightarrow> (Inr (JArray [error_item]), w1))"

section \<open>The image generator\<close>

text \<open>
  The condition
  \<^verbatim>\<open>result.predictions && result.predictions.length > 0 && result.predictions[0].bytesBase64Encoded\<close>
  is evaluated from left to right: \<^verbatim>\<open>result.predictions\<close> throws a \<^verbatim>\<open>TypeError\<close>
  when the body is \<^verbatim>\<open>null\<close>, and \<^verbatim>\<open>result.predictions[0].bytesBase64Encoded\<close>
  throws one when the first entry is \<^verbatim>\<open>null\<close>. Nothing catches them.
\<close>

definition generateImageContent ::
  "imagen_result option world \<Rightarrow> string
     \<Rightarrow> (error + string option) \<times> imagen_result option world"
where
  "generateImageContent w prompt =
     (case fetchWithRetry w 0 of
        (Inl e, w1) \<Rightarrow> (Inl e, w1)
      | (Inr None, w1) \<Rightarrow> (Inl TypeError, w1)
      | (Inr (Some result), w1) \<Rightarrow>
          (case predictions result of
             None \<Rightarrow> (Inr None, w1)
           | Some ps \<Rightarrow>
               if length ps > 0 then
                 (case ps ! 0 of
                    None \<Rightarrow> (Inl TypeError, w1)
                  | Some first \<Rightarrow>
                      if truthy (bytesBase64Encoded first) then
                        (Inr (Some (''data:image/png;base64,'' @ the (bytesBase64Encoded first))), w1)
                      else (Inr None, w1))
               else (Inr None, w1)))"

section \<open>The speech synthesizer\<close>

text \<open>
  \<^verbatim>\<open>atob\<close> is the platform's decoder, specified by the forgiving-base64 decode of the
  WHATWG Infra standard: ASCII whitespace is removed; if the length is then a multiple of
  4, one or two trailing \<^verbatim>\<open>=\<close> are removed; a length that leaves remainder 1 and any
  character outside the base64 alphabet are failures, for which \<^verbatim>\<open>atob\<close> throws an
  \<^verbatim>\<open>InvalidCharacterError\<close>; the rest is decoded 6 bits per character, and leftover
  bits of an incomplete group are dropped. The result is a string whose characters are
  the decoded bytes.
\<close>

definition ascii_whitespace :: "char \<Rightarrow> bool" where
  "ascii_whitespace c = (of_char c \<in> {9, 10, 12, 13, 32 :: nat})"

definition base64_value :: "char \<Rightarrow> nat option" where
  "base64_value c =
     (let n = of_char c :: nat in
      if 65 \<le> n \<and> n \<le> 90 then Some (n - 65)
      else if 97 \<le> n \<and> n \<le> 122 then Some (n - 71)
      else if 48 \<le> n \<and> n \<le> 57 then Some (n + 4)
      else if c = CHR ''+'' then Some 62
      else if c = CHR ''/'' then Some 63
      else None)"

definition strip_padding :: "string \<Rightarrow> string" where
  "strip_padding d =
     (if length d mod 4 = 0 \<and> d \<noteq> [] \<and> last d = CHR ''='' then
        (if butlast d \<noteq> [] \<and> last (butlast d) = CHR ''='' then butlast (butlast d)
         else butlast d)
      else d)"

fun decode_sextets :: "nat list \<Rightarrow> string" where
  "decode_sextets (a # b # c # d # rest) =
     (let n = ((a * 64 + b) * 64 + c) * 64 + d
      in char_of (n div 65536) # char_of (n div 256) # char_of n # decode_sextets rest)"
| "decode_sextets [a, b, c] =
     (let n = ((a * 64 + b) * 64 + c) div 4 in [char_of (n div 256), char_of n])"
| "decode_sextets [a, b] = [char_of ((a * 64 + b) div 16)]"
| "decode_sextets rest = []"

definition atob :: "string \<Rightarrow> error + string" where
  "atob encoded =
     (let d = strip_padding (filter (\<lambda>c. \<not> ascii_whitespace c) encoded) in
      if length d mod 4 = 1 then Inl InvalidCharacterError
      else if list_ex (\<lambda>c. base64_value c = None) d then Inl InvalidCharacterError
      else Inr (decode_sextets (map (\<lambda>c. the (base64_value c)) d)))"

text \<open>
  \<^verbatim>\<open>base64ToArrayBuffer\<close>: the loop \<^verbatim>\<open>bytes[i] = binaryString.charCodeAt(i)\<close> over a
  fresh \<^verbatim>\<open>Uint8Array\<close> of the string's length; the result is the array's buffer.
\<close>

definition base64ToArrayBuffer :: "string \<Rightarrow> error + byte list" where
  "base64ToArrayBuffer base64 =
     (case atob base64 of
        Inl e \<Rightarrow> Inl e
      | Inr binaryString \<Rightarrow>
          let len = length binaryString;
              bytes = ArrayBuffer len
          in Inr (foldl (\<lambda>bytes i. bytes[i := of_char (binaryString ! i)]) bytes [0..<len]))"

text \<open>
  \<^verbatim>\<open>mimeType.match(/rate=(\d+)/)\<close>: the leftmost place where \<^verbatim>\<open>rate=\<close> is followed by
  a decimal digit, with all the digits that follow as the captured group.
\<close>

definition digit :: "char \<Rightarrow> bool" where
  "digit c = (48 \<le> (of_char c :: nat) \<and> (of_char c :: nat) \<le> 57)"

fun rateMatch :: "string \<Rightarrow> string option" where
  "rateMatch [] = None"
| "rateMatch (c # cs) =
     (if prefix ''rate='' (c # cs) \<and> takeWhile digit (drop 5 (c # cs)) \<noteq> []
      then Some (takeWhile digit (drop 5 (c # cs)))
      else rateMatch cs)"

text \<open>
  \<^verbatim>\<open>parseInt(digits, 10)\<close> on such a group of digits returns a JavaScript number: the
  double nearest to the integer that the digits denote, with ties to the even mantissa,
  and \<^verbatim>\<open>Infinity\<close> when that is \<open>2 ^ 1024\<close> or more. The numbers that can come out
  are the non-negative integers that are doubles, and \<^verbatim>\<open>Infinity\<close>. Every integer up
  to \<open>2 ^ 53\<close> is a double. A larger integer of \<open>bits n\<close> binary digits is rounded
  to a multiple of \<open>2 ^ (bits n - 53)\<close>. (The language lets an engine replace the
  digits after the 20th significant one by zeros before it rounds; the model rounds the
  exact integer. The two agree below \<open>2 ^ 53\<close>, and no property below goes further
  except at the 16 digits of \<open>2 ^ 53 + 1\<close>.)
\<close>

datatype number = Finite nat | Infinity

fun bits :: "nat \<Rightarrow> nat" where
  "bits n = (if n = 0 then 0 else Suc (bits (n div 2)))"

declare bits.simps [simp del]

definition to_double :: "nat \<Rightarrow> number" where
  "to_double n =
     (if n < 2 ^ 53 then Finite n
      else
        let s = bits n - 53;
            q = n div 2 ^ s;
            r = n mod 2 ^ s;
            half = 2 ^ (s - 1);
            mantissa = (if half < r \<or> (r = half \<and> odd q) then q + 1 else q)
        in if 2 ^ 1024 \<le> mantissa * 2 ^ s then Infinity else Finite (mantissa * 2 ^ s))"

definition digits_value :: "string \<Rightarrow> nat" where
  "digits_value digits = foldl (\<lambda>n c. 10 * n + (of_char c - 48)) 0 digits"

definition parseInt :: "string \<Rightarrow> number" where
  "parseInt digits = to_double (digits_value digits)"

text \<open>
  The decimal numeral of a natural number, to say which digits denote which number.
\<close>

fun decimal :: "nat \<Rightarrow> string" where
  "decimal n =
     (if n < 10 then [char_of (48 + n)] else decimal (n div 10) @ [char_of (48 + n mod 10)])"

declare decimal.simps [simp del]

text \<open>
  \<^verbatim>\<open>generateTTSAudio\<close> returns \<^verbatim>\<open>URL.createObjectURL(wavBlob)\<close>; the model returns the
  content of that blob in place of the URL that names it.

  \<^verbatim>\<open>pcmToWav\<close> uses its sample rate in \<^verbatim>\<open>setUint32(24, sampleRate, true)\<close> and, as
  \<^verbatim>\<open>sampleRate * blockAlign\<close>, in \<^verbatim>\<open>setUint32(28, byteRate, true)\<close>, and nowhere else.
  For an integer that is a double the product with 2 is exact, or it is \<^verbatim>\<open>Infinity\<close>
  where the exact product is a multiple of \<open>2 ^ 32\<close>, and \<^verbatim>\<open>ToUint32\<close> is 0 in both
  cases: on such sample rates \<^verbatim>\<open>pcmToWav\<close> is the function of natural numbers above.
  For the sample rate \<^verbatim>\<open>Infinity\<close> both fields are \<^verbatim>\<open>ToUint32(Infinity)\<close>, which is
  0, as they are for the sample rate 0.
\<close>

definition generateTTSAudio ::
  "gemini_result world \<Rightarrow> string \<Rightarrow> string \<Rightarrow> (error + byte list option) \<times> gemini_result world"
where
  "generateTTSAudio w text voiceName =
     (case fetchWithRetry w 0 of
        (Inl e, w1) \<Rightarrow> (Inl e, w1)
      | (Inr result, w1) \<Rightarrow>
          let part = first_part result;
              audioData = part \<bind> inlineData \<bind> data;
              mimeType = part \<bind> inlineData \<bind> mimeType
          in if truthy audioData \<and> truthy mimeType \<and> prefix ''audio/L16'' (the mimeType) then
               let sampleRate =
                     (case rateMatch (the mimeType) of
                        Some digits \<Rightarrow> parseInt digits
                      | None \<Rightarrow> Finite 24000)
               in case base64ToArrayBuffer (the audioData) of
                    Inl e \<Rightarrow> (Inl e, w1)
                  | Inr pcmData \<Rightarrow>
                      (case Int16Array pcmData of
                         Inl e \<Rightarrow> (Inl e, w1)
                       | Inr pcm16 \<Rightarrow>
                           (case pcmToWav pcm16
                                   (case sampleRate of Finite n \<Rightarrow> n | Infinity \<Rightarrow> 0) of
                              None \<Rightarrow> (Inl RangeError, w1)
                            | Some wavBlob \<Rightarrow> (Inr (Some wavBlob), w1)))
             else (Inr None, w1))"

text \<open>
  A world whose server answers every request with status 200 and the JSON body
  \<open>result\<close>.
\<close>

definition answering :: "'a \<Rightarrow> 'a world" where
  "answering result =
     \<lparr>network = (\<lambda>i. Inr \<lparr>status = 200, text_body = Inr [], json_body = Inr result\<rparr>),
      entropy = (\<lambda>i. 0), fetched = 0, drawn = 0, timers = []\<rparr>"

definition speech_result :: "string option \<Rightarrow> string option \<Rightarrow> gemini_result" where
  "speech_result audioData mime =
     \<lparr>candidates = Some [\<lparr>content = Some \<lparr>parts = Some [\<lparr>text' = None,
        inlineData = Some \<lparr>data = audioData, mimeType = mime\<rparr>\<rparr>]\<rparr>,
        groundingMetadata = None\<rparr>]\<rparr>"

text \<open>
  Two text responses with grounding attributions. In both, the second attribution has no
  \<^verbatim>\<open>uri\<close>. The first attribution of \<open>grounded_result\<close> has a \<^verbatim>\<open>uri\<close> and a
  \<^verbatim>\<open>title\<close>; the first attribution of \<open>untitled_result\<close> has both fields too, but
  its \<^verbatim>\<open>title\<close> is the empty string. \<open>text_result t\<close> is a response whose only
  part has the text \<open>t\<close>.
\<close>

definition grounded_result :: gemini_result where
  "grounded_result =
     \<lparr>candidates = Some
        [\<lparr>content = Some \<lparr>parts = Some [\<lparr>text' = Some ''Paris.'', inlineData = None\<rparr>]\<rparr>,
          groundingMetadata = Some \<lparr>groundingAttributions = Some
            [\<lparr>web = Some \<lparr>uri = Some ''https://example.org/paris'', title = Some ''Paris''\<rparr>\<rparr>,
             \<lparr>web = Some \<lparr>uri = None, title = Some ''No link''\<rparr>\<rparr>]\<rparr>\<rparr>]\<rparr>"

definition untitled_result :: gemini_result where
  "untitled_result =
     \<lparr>candidates = Some
        [\<lparr>content = Some \<lparr>parts = Some [\<lparr>text' = Some ''Paris.'', inlineData = None\<rparr>]\<rparr>,
          groundingMetadata = Some \<lparr>groundingAttributions = Some
            [\<lparr>web = Some \<lparr>uri = Some ''https://example.org/paris'', title = Some ''''\<rparr>\<rparr>,
             \<lparr>web = Some \<lparr>uri = None, title = Some ''No link''\<rparr>\<rparr>]\<rparr>\<rparr>]\<rparr>"

definition text_result :: "string option \<Rightarrow> gemini_result" where
  "text_result t =
     \<lparr>candidates = Some
        [\<lparr>content = Some \<lparr>parts = Some [\<lparr>text' = t, inlineData = None\<rparr>]\<rparr>,
          groundingMetadata = None\<rparr>]\<rparr>"

text \<open>
  A stand-in for \<^verbatim>\<open>JSON.parse\<close> in examples: it parses the three literal names and
  throws a \<^verbatim>\<open>SyntaxError\<close> for every other text, as \<^verbatim>\<open>JSON.parse\<close> does for
  \<^verbatim>\<open>not valid json\<close>.
\<close>

definition JSON_parse_literals :: "string \<Rightarrow> error + json" where
  "JSON_parse_literals s =
     (if s = ''null'' then Inr JNull
      else if s = ''true'' then Inr (JBool True)
      else if s = ''false'' then Inr (JBool False)
      else Inl SyntaxError)"

section \<open>Properties of the retrying invoker\<close>

lemma try_block_cases:
  "try_block w retries =
     (case network w (fetched w) of
        Inl e \<Rightarrow> (Throws e, w\<lparr>fetched := Suc (fetched w)\<rparr>)
      | Inr response \<Rightarrow>
          if ok response then (Returns (json_body response), w\<lparr>fetched := Suc (fetched w)\<rparr>)
          else if status response = 429 \<and> retries < maxRetries then
            (Retries, w\<lparr>fetched := Suc (fetched w), drawn := Suc (drawn w),
               timers := timers w @ [2 ^ retries * 1000 + entropy w (drawn w) * 1000]\<rparr>)
          else (Throws (case text_body response of Inl e \<Rightarrow> e
                        | Inr errorText \<Rightarrow> ApiRequestFailed (status response) errorText),
                w\<lparr>fetched := Suc (fetched w)\<rparr>))"
  by (simp add: try_block_def fetch_def backoff_def Math_random_def sleep_def
           split: sum.splits)

lemma backoff_eq:
  "backoff w retries = w\<lparr>drawn := Suc (drawn w),
       timers := timers w @ [2 ^ retries * 1000 + entropy w (drawn w) * 1000]\<rparr>"
  by (simp add: backoff_def Math_random_def sleep_def)

lemma try_block_world:
  "try_block w retries = (c, w1) \<Longrightarrow>
     (c = Retries \<longrightarrow> retries < maxRetries \<and> w1 = backoff (w\<lparr>fetched := Suc (fetched w)\<rparr>) retries)
   \<and> (c \<noteq> Retries \<longrightarrow> w1 = w\<lparr>fetched := Suc (fetched w)\<rparr>)"
  by (auto simp: try_block_cases backoff_eq split: sum.splits if_splits)

lemma delays_Suc:
  "delays w retries (Suc n) =
     (2 ^ retries * 1000 + entropy w (drawn w) * 1000)
       # delays (backoff (w\<lparr>fetched := f\<rparr>) retries) (Suc retries) n"
  by (simp add: delays_def backoff_eq upt_conv_Cons map_Suc_upt [symmetric] del: upt_Suc)

lemma after_backoff:
  assumes "snd (fetchWithRetry (backoff (w\<lparr>fetched := Suc (fetched w)\<rparr>) retries) (Suc retries)) =
             (backoff (w\<lparr>fetched := Suc (fetched w)\<rparr>) retries)
               \<lparr>fetched := fetched (backoff (w\<lparr>fetched := Suc (fetched w)\<rparr>) retries) + Suc n,
                drawn := drawn (backoff (w\<lparr>fetched := Suc (fetched w)\<rparr>) retries) + n,
                timers := timers (backoff (w\<lparr>fetched := Suc (fetched w)\<rparr>) retries)
                   @ delays (backoff (w\<lparr>fetched := Suc (fetched w)\<rparr>) retries) (Suc retries) n\<rparr>"
  shows "snd (fetchWithRetry (backoff (w\<lparr>fetched := Suc (fetched w)\<rparr>) retries) (Suc retries)) =
           w\<lparr>fetched := fetched w + Suc (Suc n), drawn := drawn w + Suc n,
             timers := timers w @ delays w retries (Suc n)\<rparr>"
  unfolding assms delays_Suc [where f = "Suc (fetched w)"]
  by (simp add: backoff_eq)

lemma fetchWithRetry_world:
  "\<exists>n. n \<le> maxRetries - retries \<and>
       snd (fetchWithRetry w retries) =
         w\<lparr>fetched := fetched w + Suc n, drawn := drawn w + n,
           timers := timers w @ delays w retries n\<rparr>"
proof (induction w retries rule: fetchWithRetry.induct)
  case (1 w retries)
  obtain c w1 where tb: "try_block w retries = (c, w1)"
    by force
  note tw = try_block_world [OF tb]
  let ?w1 = "backoff (w\<lparr>fetched := Suc (fetched w)\<rparr>) retries"
  have stop: "snd (fetchWithRetry w retries) = w1 \<Longrightarrow> c \<noteq> Retries \<Longrightarrow> ?case"
    using tw by (intro exI [of _ 0]) (simp add: delays_def)
  have again: ?case
    if run: "fetchWithRetry w retries = fetchWithRetry ?w1 (Suc retries)"
      and lt: "retries < maxRetries"
      and ih: "\<exists>n\<le>maxRetries - (retries + 1).
                 snd (fetchWithRetry ?w1 (retries + 1)) =
                   ?w1\<lparr>fetched := fetched ?w1 + Suc n, drawn := drawn ?w1 + n,
                     timers := timers ?w1 @ delays ?w1 (retries + 1) n\<rparr>"
  proof -
    from ih obtain n where n: "n \<le> maxRetries - (retries + 1)"
      and w: "snd (fetchWithRetry ?w1 (Suc retries)) =
                   ?w1\<lparr>fetched := fetched ?w1 + Suc n, drawn := drawn ?w1 + n,
                     timers := timers ?w1 @ delays ?w1 (Suc retries) n\<rparr>"
      by auto
    from n lt have "Suc n \<le> maxRetries - retries" by simp
    with after_backoff [OF w] run show ?thesis
      by (intro exI [of _ "Suc n"]) simp
  qed
  show ?case
  proof (cases c)
    case (Returns r)
    with tb stop show ?thesis
      by (simp add: fetchWithRetry.simps [of w retries])
  next
    case Retries
    with tw have lt: "retries < maxRetries" and w1: "w1 = ?w1"
      by simp_all
    from tb Retries w1 have run: "fetchWithRetry w retries = fetchWithRetry ?w1 (Suc retries)"
      by (simp add: fetchWithRetry.simps [of w retries])
    from "1.IH"(1) [OF tb [symmetric] Retries] w1 again [OF run lt] show ?thesis
      by simp
  next
    case (Throws e)
    show ?thesis
    proof (cases "retries < maxRetries")
      case True
      from tw Throws have w1: "w1 = w\<lparr>fetched := Suc (fetched w)\<rparr>"
        by simp
      from tb Throws True w1 have run: "fetchWithRetry w retries = fetchWithRetry ?w1 (Suc retries)"
        by (simp add: fetchWithRetry.simps [of w retries])
      from "1.IH"(2) [OF tb [symmetric] Throws True] w1 again [OF run True] show ?thesis
        by simp
    next
      case False
      with tb Throws stop show ?thesis
        by (simp add: fetchWithRetry.simps [of w retries])
    qed
  qed
qed

lemma rate_limited_run:
  "fetchWithRetry (rate_limited j) 0 =
     (Inl (ApiRequestFailed 429 ''slow down''),
      rate_limited j\<lparr>fetched := 4, drawn := 3,
        timers := [1000 + j * 1000, 2000 + j * 1000, 4000 + j * 1000]\<rparr>)"
  by (simp add: fetchWithRetry.simps try_block_cases rate_limited_def ok_def maxRetries_def
        backoff_eq)

lemma fetchWithRetry_other_status:
  assumes "network w (fetched w) = Inr response"
      and "\<not> ok response" and "status response \<noteq> 429"
      and "text_body response = Inr errorText"
  shows "retries < 3 \<Longrightarrow>
           fetchWithRetry w retries =
             fetchWithRetry (backoff (w\<lparr>fetched := Suc (fetched w)\<rparr>) retries) (retries + 1)"
    and "3 \<le> retries \<Longrightarrow>
           fetchWithRetry w retries =
             (Inl (ApiRequestFailed (status response) errorText), w\<lparr>fetched := Suc (fetched w)\<rparr>)"
  using assms
  by (simp_all add: fetchWithRetry.simps [of w retries] try_block_cases maxRetries_def)

text \<open>
  Claim C1 says that a response with a status that is neither 2xx nor 429 makes the
  invoker fail at once, with no further request. The code throws the error inside its own
  \<^verbatim>\<open>try\<close> block, so its \<^verbatim>\<open>catch\<close> block backs off and tries again: against
  \<open>flaky_server\<close>, whose first answer has status 500, the call sleeps 1250 ms, sends a
  second request and returns that request's JSON body instead of failing.
\<close>

theorem fetchWithRetry_retries_status_500:
  "fetchWithRetry flaky_server 0 =
     (Inr ''{}'', flaky_server\<lparr>fetched := 2, drawn := 1, timers := [1250]\<rparr>)"
  by (simp add: fetchWithRetry.simps try_block_cases flaky_server_def ok_def maxRetries_def
        backoff_eq)

text \<open>
  Claim C4: for every response with status 429, while fewer than 3 retries have been used
  the invoker sleeps for a delay \<open>d\<close> with
  \<open>2 ^ retries * 1000 \<le> d \<le> 2 ^ retries * 1000 + 1000\<close> milliseconds and then calls
  itself with \<open>retries + 1\<close>; once the 3 retries are used up it fails with the error of
  the response it has just seen: the request error carrying status 429 and the body
  text, or the failure of reading that body.
\<close>

theorem fetchWithRetry_429:
  assumes "network w (fetched w) = Inr response"
      and "status response = 429"
      and "0 \<le> entropy w (drawn w)" and "entropy w (drawn w) \<le> 1"
  shows "(retries < 3 \<longrightarrow>
            (\<exists>d. 2 ^ retries * 1000 \<le> d \<and> d \<le> 2 ^ retries * 1000 + 1000 \<and>
                 fetchWithRetry w retries =
                   fetchWithRetry
                     (w\<lparr>fetched := Suc (fetched w), drawn := Suc (drawn w),
                        timers := timers w @ [d]\<rparr>)
                     (retries + 1)))
       \<and> (3 \<le> retries \<longrightarrow>
            fetchWithRetry w retries =
              (Inl (case text_body response of
                      Inl e \<Rightarrow> e
                    | Inr errorText \<Rightarrow> ApiRequestFailed 429 errorText),
               w\<lparr>fetched := Suc (fetched w)\<rparr>))"
proof (intro conjI impI)
  assume lt: "retries < 3"
  let ?d = "2 ^ retries * 1000 + entropy w (drawn w) * 1000"
  from assms(1,2) lt have "fetchWithRetry w retries =
      fetchWithRetry (w\<lparr>fetched := Suc (fetched w), drawn := Suc (drawn w),
                        timers := timers w @ [?d]\<rparr>) (retries + 1)"
    by (simp add: fetchWithRetry.simps [of w retries] try_block_cases ok_def maxRetries_def)
  moreover from assms(3,4) have "2 ^ retries * 1000 \<le> ?d" and "?d \<le> 2 ^ retries * 1000 + 1000"
    by simp_all
  ultimately show "\<exists>d. 2 ^ retries * 1000 \<le> d \<and> d \<le> 2 ^ retries * 1000 + 1000 \<and>
      fetchWithRetry w retries =
        fetchWithRetry (w\<lparr>fetched := Suc (fetched w), drawn := Suc (drawn w),
                        timers := timers w @ [d]\<rparr>) (retries + 1)"
    by blast
next
  assume "3 \<le> retries"
  with assms(1,2) show "fetchWithRetry w retries =
      (Inl (case text_body response of Inl e \<Rightarrow> e
            | Inr errorText \<Rightarrow> ApiRequestFailed 429 errorText),
       w\<lparr>fetched := Suc (fetched w)\<rparr>)"
    by (simp add: fetchWithRetry.simps [of w retries] try_block_cases ok_def maxRetries_def
          split: sum.splits)
qed

theorem fetchWithRetry_429_witness:
  "(\<exists>d. 1000 \<le> d \<and> d \<le> 2000 \<and>
      fetchWithRetry (rate_limited (1 / 2)) 0 =
        fetchWithRetry (rate_limited (1 / 2)\<lparr>fetched := 1, drawn := 1, timers := [d]\<rparr>) 1) \<and>
   fetchWithRetry (rate_limited (1 / 2)) 3 =
     (Inl (ApiRequestFailed 429 ''slow down''), rate_limited (1 / 2)\<lparr>fetched := 1\<rparr>)"
  using fetchWithRetry_429 [of "rate_limited (1 / 2)"
          "\<lparr>status = 429, text_body = Inr ''slow down'', json_body = Inr ()\<rparr>" 0]
        fetchWithRetry_429 [of "rate_limited (1 / 2)"
          "\<lparr>status = 429, text_body = Inr ''slow down'', json_body = Inr ()\<rparr>" 3]
  by (simp add: rate_limited_def)

text \<open>
  Claim C2 bounds the sum of the backoff delays of a call that uses all 3 retries by about
  5000 ms. That is the bound of the last delay alone. As stated the claim is false: with
  all random numbers 0, the smallest the delays can be, they add up to 7000 ms. (For the
  random number 0 the doubles of the code are the numbers of the model: 1000, 2000 and
  4000.)
\<close>

theorem backoff_total_delay_counterexample:
  "length (timers (snd (fetchWithRetry (rate_limited 0) 0))) = 3 \<and>
   \<not> sum_list (timers (snd (fetchWithRetry (rate_limited 0) 0))) \<le> 5000"
  by (simp add: rate_limited_run)

text \<open>
  Claim C2 as amended: in a call that uses all 3 retries, each backoff delay is at most
  5000 ms, and the delays add up to at least 7000 ms and at most 10000 ms.
\<close>

theorem backoff_total_delay:
  assumes "\<forall>i. 0 \<le> entropy w i \<and> entropy w i \<le> 1"
      and "timers (snd (fetchWithRetry w 0)) = timers w @ ds"
      and "length ds = 3"
  shows "7000 \<le> sum_list ds \<and> sum_list ds \<le> 10000 \<and> (\<forall>d \<in> set ds. d \<le> 5000)"
proof -
  from fetchWithRetry_world [of 0 w] obtain n
    where "timers (snd (fetchWithRetry w 0)) = timers w @ delays w 0 n"
    by auto
  with assms(2) have ds: "ds = delays w 0 n"
    by simp
  with assms(3) have "n = 3"
    by (simp add: delays_def)
  with ds have ds3: "ds = [1000 + entropy w (drawn w) * 1000,
      2000 + entropy w (drawn w + 1) * 1000, 4000 + entropy w (drawn w + 2) * 1000]"
    by (simp add: delays_def upt_rec numeral_3_eq_3 numeral_2_eq_2)
  from assms(1) have "0 \<le> entropy w (drawn w) \<and> entropy w (drawn w) \<le> 1"
    and "0 \<le> entropy w (drawn w + 1) \<and> entropy w (drawn w + 1) \<le> 1"
    and "0 \<le> entropy w (drawn w + 2) \<and> entropy w (drawn w + 2) \<le> 1"
    by blast+
  then show ?thesis
    unfolding ds3 by simp
qed

theorem backoff_total_delay_witness:
  "(\<forall>i. 0 \<le> entropy (rate_limited (1 / 2)) i \<and> entropy (rate_limited (1 / 2)) i \<le> 1) \<and>
   timers (snd (fetchWithRetry (rate_limited (1 / 2)) 0)) =
     timers (rate_limited (1 / 2)) @ [1500, 2500, 4500] \<and>
   7000 \<le> sum_list [1500, 2500, 4500 :: real] \<and> sum_list [1500, 2500, 4500 :: real] \<le> 10000 \<and>
   (1500 :: real) \<le> 5000 \<and> (2500 :: real) \<le> 5000 \<and> (4500 :: real) \<le> 5000"
  using backoff_total_delay [of "rate_limited (1 / 2)" "[1500, 2500, 4500]"]
  by (simp add: rate_limited_run) (simp add: rate_limited_def)

section \<open>Properties of the WAV encoder\<close>

lemma write_samples_append:
  "length B = 2 * length pcm16 \<Longrightarrow>
     write_samples (A @ B) (length A) pcm16 = Some (A @ payload pcm16)"
proof (induction pcm16 arbitrary: A B)
  case Nil
  then show ?case by (simp add: payload_def)
next
  case (Cons s ss)
  then obtain b0 b1 B' where B: "B = b0 # b1 # B'" and len: "length B' = 2 * length ss"
    by (cases B; cases "tl B") auto
  have "setInt16 (A @ B) (length A) (sint s) True = Some ((A @ raw16 s True) @ B')"
    by (simp add: setInt16_def SetViewValue_def B raw16_def)
  moreover have "length A + 2 = length (A @ raw16 s True)"
    by (simp add: raw16_def)
  ultimately show ?case
    using Cons.IH [OF len, of "A @ raw16 s True"]
    by (simp add: payload_def del: append_assoc)
qed

lemma header_writes:
  "length B = n \<Longrightarrow> do {
        view \<leftarrow> writeString (replicate 44 0 @ B) 0 ''RIFF'';
        view \<leftarrow> setUint32 view 4 r True;
        view \<leftarrow> writeString view 8 ''WAVE'';
        view \<leftarrow> writeString view 12 ''fmt '';
        view \<leftarrow> setUint32 view 16 16 True;
        view \<leftarrow> setUint16 view 20 1 True;
        view \<leftarrow> setUint16 view 22 1 True;
        view \<leftarrow> setUint32 view 24 sampleRate True;
        view \<leftarrow> setUint32 view 28 byteRate True;
        view \<leftarrow> setUint16 view 32 2 True;
        view \<leftarrow> setUint16 view 34 16 True;
        view \<leftarrow> writeString view 36 ''data'';
        view \<leftarrow> setUint32 view 40 d True;
        k view} = k (map of_char ''RIFF'' @ raw32 (word_of_nat r) True @ map of_char ''WAVEfmt ''
           @ raw32 16 True @ raw16 1 True @ raw16 1 True @ raw32 (word_of_nat sampleRate) True
           @ raw32 (word_of_nat byteRate) True @ raw16 2 True @ raw16 16 True @ map of_char ''data''
           @ raw32 (word_of_nat d) True @ B)"
  by (simp add: setUint8_def setUint16_def setUint32_def SetViewValue_def raw16_def raw32_def)

lemma base256_digits:
  "n mod 256 + (256 * (n div 256 mod 256) + (65536 * (n div 65536 mod 256)
     + 16777216 * (n div 16777216))) = (n :: nat)"
proof -
  define a b c where "a = n div 256" and "b = a div 256" and "c = b div 256"
  have "n div 65536 = b" and "n div 16777216 = c"
    by (simp_all add: a_def b_def c_def div_mult2_eq)
  then have "n mod 256 + (256 * (n div 256 mod 256) + (65536 * (n div 65536 mod 256)
      + 16777216 * (n div 16777216)))
    = n mod 256 + 256 * (a mod 256 + 256 * (b mod 256 + 256 * c))"
    by (simp add: a_def)
  also have "b mod 256 + 256 * c = b"
    by (simp add: c_def)
  also have "a mod 256 + 256 * b = a"
    by (simp add: b_def)
  also have "n mod 256 + 256 * a = n"
    by (simp add: a_def)
  finally show ?thesis .
qed

lemma unsigned_le_raw16: "unsigned_le (raw16 x True) = unat x"
proof -
  have "unat x < 2 ^ 16"
    using unsigned_less [of x, where ?'a = nat] by simp
  moreover have "unsigned_le (raw16 x True) =
      foldr (\<lambda>k acc. take_bit 8 (drop_bit k (unat x)) + 256 * acc) [0, 8] 0"
    by (simp add: raw16_def unsigned_ucast_eq unat_drop_bit_eq)
  ultimately show ?thesis
    by (simp add: take_bit_eq_mod drop_bit_eq_div)
qed

lemma unsigned_le_raw32: "unsigned_le (raw32 x True) = unat x"
proof -
  have "unat x < 2 ^ 32"
    using unsigned_less [of x, where ?'a = nat] by simp
  moreover have "unsigned_le (raw32 x True) =
      foldr (\<lambda>k acc. take_bit 8 (drop_bit k (unat x)) + 256 * acc) [0, 8, 16, 24] 0"
    by (simp add: raw32_def unsigned_ucast_eq unat_drop_bit_eq)
  ultimately show ?thesis
    by (simp add: take_bit_eq_mod drop_bit_eq_div base256_digits)
qed

lemma int16_join: "ucast (ucast s :: byte) OR push_bit 8 (ucast (ucast (drop_bit 8 s) :: byte)) = (s :: 16 word)"
  by (rule bit_word_eqI) (auto simp: bit_simps)

lemma int16_elements_payload: "int16_elements (payload pcm16) = pcm16"
  by (induction pcm16) (simp_all add: payload_def raw16_def int16_join)

lemma length_raw [simp]: "length (raw16 x e) = 2" "length (raw32 y e) = 4"
  by (simp_all add: raw16_def raw32_def Let_def)

lemma length_wav_header [simp]: "length (wav_header n r) = 44"
  by (simp add: wav_header_def)

lemma pcmToWav_bytes:
  "pcmToWav pcm16 sampleRate = Some (wav_header (length pcm16) sampleRate @ payload pcm16)"
proof -
  let ?B = "replicate (2 * length pcm16) (0 :: byte)"
  have "pcmToWav pcm16 sampleRate =
      write_samples (wav_header (length pcm16) sampleRate @ ?B) 44 pcm16"
    unfolding pcmToWav_def Let_def ArrayBuffer_def byteLength_def replicate_add
    by (simp only: mult_1 header_writes [OF refl] wav_header_def append_assoc)
  also have "\<dots> = Some (wav_header (length pcm16) sampleRate @ payload pcm16)"
    using write_samples_append [of ?B pcm16 "wav_header (length pcm16) sampleRate"]
    by simp
  finally show ?thesis .
qed

lemma length_payload [simp]: "length (payload pcm16) = 2 * length pcm16"
  by (induction pcm16) (simp_all add: payload_def)

lemma header_fields:
  fixes a b c d :: "32 word"
  defines "h \<equiv> map of_char ''RIFF'' @ raw32 a True
     @ map of_char ''WAVEfmt '' @ raw32 16 True @ raw16 1 True @ raw16 1 True
     @ raw32 b True @ raw32 c True
     @ raw16 2 True @ raw16 16 True @ map of_char ''data''
     @ raw32 d True"
  shows "take 4 (h @ p) = map of_char ''RIFF''"
    and "take 4 (drop 8 (h @ p)) = map of_char ''WAVE''"
    and "take 4 (drop 12 (h @ p)) = map of_char ''fmt ''"
    and "take 4 (drop 36 (h @ p)) = map of_char ''data''"
    and "getUint32 (h @ p) 4 True = Some (unat a)"
    and "getUint32 (h @ p) 16 True = Some 16"
    and "getUint16 (h @ p) 20 True = Some 1"
    and "getUint16 (h @ p) 22 True = Some 1"
    and "getUint32 (h @ p) 24 True = Some (unat b)"
    and "getUint32 (h @ p) 28 True = Some (unat c)"
    and "getUint16 (h @ p) 32 True = Some 2"
    and "getUint16 (h @ p) 34 True = Some 16"
    and "getUint32 (h @ p) 40 True = Some (unat d)"
    and "drop 44 (h @ p) = p"
  by (simp_all add: h_def getUint32_def getUint16_def GetViewValue_def
        unsigned_le_raw32 unsigned_le_raw16)

lemma wav_fields:
  "take 4 (wav_header n r @ p) = map of_char ''RIFF''"
  "take 4 (drop 8 (wav_header n r @ p)) = map of_char ''WAVE''"
  "take 4 (drop 12 (wav_header n r @ p)) = map of_char ''fmt ''"
  "take 4 (drop 36 (wav_header n r @ p)) = map of_char ''data''"
  "getUint32 (wav_header n r @ p) 4 True = Some ((36 + 2 * n) mod 2 ^ 32)"
  "getUint32 (wav_header n r @ p) 16 True = Some 16"
  "getUint16 (wav_header n r @ p) 20 True = Some 1"
  "getUint16 (wav_header n r @ p) 22 True = Some 1"
  "getUint32 (wav_header n r @ p) 24 True = Some (r mod 2 ^ 32)"
  "getUint32 (wav_header n r @ p) 28 True = Some (r * 2 mod 2 ^ 32)"
  "getUint16 (wav_header n r @ p) 32 True = Some 2"
  "getUint16 (wav_header n r @ p) 34 True = Some 16"
  "getUint32 (wav_header n r @ p) 40 True = Some (2 * n mod 2 ^ 32)"
  "drop 44 (wav_header n r @ p) = p"
  unfolding wav_header_def
  by (simp_all only: header_fields unat_of_nat) simp_all

lemma Int16Array_payload: "Int16Array (payload pcm16) = Inr pcm16"
  by (simp add: Int16Array_def int16_elements_payload)

lemma pcmToWav_example:
  "pcmToWav [0, 32767, - 32768, 100] 16000 =
     Some [82, 73, 70, 70, 44, 0, 0, 0, 87, 65, 86, 69, 102, 109, 116, 32,
           16, 0, 0, 0, 1, 0, 1, 0, 128, 62, 0, 0, 0, 125, 0, 0,
           2, 0, 16, 0, 100, 97, 116, 97, 8, 0, 0, 0,
           0, 0, 255, 127, 0, 128, 100, 0]"
  by (simp add: pcmToWav_bytes wav_header_def payload_def raw32_def raw16_def)

text \<open>
  Claim C5 states the layout for every sample sequence and every sample rate. The numeric
  fields of the header are 32 bits wide, and \<^verbatim>\<open>setUint32\<close> stores its argument modulo
  \<open>2 ^ 32\<close>: at the sample rate \<open>2 ^ 31\<close> the byte rate field holds 0, not
  \<open>2 ^ 32\<close>.
\<close>

theorem pcmToWav_layout_counterexample:
  "pcmToWav [] 2147483648 =
     Some [82, 73, 70, 70, 36, 0, 0, 0, 87, 65, 86, 69, 102, 109, 116, 32,
           16, 0, 0, 0, 1, 0, 1, 0, 0, 0, 0, 128, 0, 0, 0, 0,
           2, 0, 16, 0, 100, 97, 116, 97, 0, 0, 0, 0] \<and>
   getUint32 [82, 73, 70, 70, 36, 0, 0, 0, 87, 65, 86, 69, 102, 109, 116, 32,
           16, 0, 0, 0, 1, 0, 1, 0, 0, 0, 0, 128, 0, 0, 0, 0,
           2, 0, 16, 0, 100, 97, 116, 97, 0, 0, 0, 0] 28 True = Some 0 \<and>
   (0 :: nat) \<noteq> 2147483648 * 2"
  by (simp add: pcmToWav_bytes wav_header_def payload_def raw32_def raw16_def
        getUint32_def GetViewValue_def)

text \<open>
  Claim C5 as amended: for every sequence of fewer than \<open>2 ^ 31\<close> signed 16-bit samples
  and every sample rate below \<open>2 ^ 31\<close>, \<^verbatim>\<open>pcmToWav\<close> returns 44 header bytes followed
  by \<open>2 * sampleCount\<close> payload bytes; the header has the ASCII identifiers RIFF, WAVE,
  fmt and data, a format chunk of size 16 with format code 1, one channel, the sample
  rate, the byte rate \<open>sampleRate * 2\<close>, block align 2 and 16 bits per sample, and a data
  chunk whose length is the number of payload bytes; every numeric field is
  little-endian, and reading the payload back as 16-bit samples gives the input. So it
  is for the samples 0, 32767, -32768, 100 at 16000 Hz, whose encoding has 52 bytes.
\<close>

theorem pcmToWav_layout:
  assumes "sampleRate < 2 ^ 31" and "length pcm16 < 2 ^ 31"
  shows "\<exists>wav. pcmToWav pcm16 sampleRate = Some wav
    \<and> length wav = 44 + 2 * length pcm16
    \<and> take 4 wav = map of_char ''RIFF''
    \<and> take 4 (drop 8 wav) = map of_char ''WAVE''
    \<and> take 4 (drop 12 wav) = map of_char ''fmt ''
    \<and> getUint32 wav 16 True = Some 16
    \<and> getUint16 wav 20 True = Some 1
    \<and> getUint16 wav 22 True = Some 1
    \<and> getUint32 wav 24 True = Some sampleRate
    \<and> getUint32 wav 28 True = Some (sampleRate * 2)
    \<and> getUint16 wav 32 True = Some 2
    \<and> getUint16 wav 34 True = Some 16
    \<and> take 4 (drop 36 wav) = map of_char ''data''
    \<and> getUint32 wav 40 True = Some (length (drop 44 wav))
    \<and> Int16Array (drop 44 wav) = Inr pcm16"
proof -
  from assms have "sampleRate mod 2 ^ 32 = sampleRate"
    and "sampleRate * 2 mod 2 ^ 32 = sampleRate * 2"
    and "2 * length pcm16 mod 2 ^ 32 = 2 * length pcm16"
    by simp_all
  then show ?thesis
    by (simp only: pcmToWav_bytes wav_fields simp_thms ex_simps option.inject
          length_append length_wav_header length_payload Int16Array_payload)
qed

theorem pcmToWav_layout_witness:
  "(16000 :: nat) < 2 ^ 31 \<and> length [0, 32767, - 32768, 100 :: 16 word] < 2 ^ 31 \<and>
   (\<exists>wav. pcmToWav [0, 32767, - 32768, 100] 16000 = Some wav
      \<and> length wav = 44 + 8
      \<and> take 4 wav = map of_char ''RIFF''
      \<and> take 4 (drop 8 wav) = map of_char ''WAVE''
      \<and> getUint32 wav 24 True = Some 16000
      \<and> Int16Array (drop 44 wav) = Inr [0, 32767, - 32768, 100])"
  using pcmToWav_layout [of 16000 "[0, 32767, - 32768, 100]"]
  by auto

text \<open>
  Claim C10 states that the two length fields agree with the output's size for every
  sample sequence. For 2147483630 samples the output has \<open>2 ^ 32 + 8\<close> bytes and its
  RIFF length field, bytes 4 to 7, holds 0.
\<close>

theorem pcmToWav_sizes_counterexample:
  "map_option length (pcmToWav (replicate 2147483630 0) 24000) = Some (4294967296 + 8) \<and>
   map_option (take 8) (pcmToWav (replicate 2147483630 0) 24000)
     = Some [82, 73, 70, 70, 0, 0, 0, 0] \<and>
   getUint32 [82, 73, 70, 70, 0, 0, 0, 0] 4 True = Some 0"
  by (simp add: pcmToWav_bytes wav_header_def raw32_def
        getUint32_def GetViewValue_def)

text \<open>
  Claim C10 as amended: for every sample sequence with \<open>36 + 2 * sampleCount < 2 ^ 32\<close>
  and every sample rate, the little-endian field at bytes 4 to 7 of the output holds
  \<open>36 + 2 * sampleCount\<close>, the output's length minus 8, and the little-endian field at
  bytes 40 to 43 holds \<open>2 * sampleCount\<close>, the output's length minus 44.
\<close>

theorem pcmToWav_sizes:
  assumes "36 + 2 * length pcm16 < 2 ^ 32"
  shows "\<exists>wav. pcmToWav pcm16 sampleRate = Some wav
    \<and> getUint32 wav 4 True = Some (36 + 2 * length pcm16)
    \<and> getUint32 wav 4 True = Some (length wav - 8)
    \<and> getUint32 wav 40 True = Some (2 * length pcm16)
    \<and> getUint32 wav 40 True = Some (length wav - 44)"
proof -
  from assms have "(36 + 2 * length pcm16) mod 2 ^ 32 = 36 + 2 * length pcm16"
    and "2 * length pcm16 mod 2 ^ 32 = 2 * length pcm16"
    by simp_all
  then show ?thesis
    by (simp add: pcmToWav_bytes wav_fields)
qed

theorem pcmToWav_sizes_witness:
  "36 + 2 * length [0, 32767, - 32768, 100 :: 16 word] < (2 :: nat) ^ 32 \<and>
   (\<exists>wav. pcmToWav [0, 32767, - 32768, 100] 16000 = Some wav
      \<and> length wav = 52
      \<and> getUint32 wav 4 True = Some 44
      \<and> getUint32 wav 40 True = Some 8)"
  using pcmToWav_sizes [of "[0, 32767, - 32768, 100]" 16000]
  by (auto simp: pcmToWav_bytes)

section \<open>Properties of the speech synthesizer\<close>

lemma answering_run:
  "fetchWithRetry (answering result) 0 = (Inr result, answering result\<lparr>fetched := 1\<rparr>)"
  by (simp add: fetchWithRetry.simps try_block_def fetch_def answering_def ok_def)

lemma first_part_speech_result [simp]:
  "first_part (speech_result a m) = Some \<lparr>text' = None, inlineData = Some \<lparr>data = a, mimeType = m\<rparr>\<rparr>"
  by (simp add: first_part_def speech_result_def element_def)

lemma byte_of_char_of [simp]: "(of_char (char_of (n :: nat)) :: byte) = word_of_nat n"
proof -
  have "(of_char (char_of n) :: byte) = of_nat (of_char (char_of n))"
    by (simp only: of_nat_of_char)
  also have "\<dots> = of_nat (n mod 256)"
    by (simp only: of_char_of)
  also have "\<dots> = word_of_nat n"
    by (simp add: word_of_nat_eq_iff take_bit_eq_mod)
  finally show ?thesis .
qed

lemma atob_examples:
  "atob ''!!!!'' = Inl InvalidCharacterError"
  "atob ''AAAA'' = Inr (map char_of [0, 0, 0 :: nat])"
  "atob ''AAD/fw=='' = Inr (map char_of [0, 0, 255, 127 :: nat])"
  by (simp_all add: atob_def strip_padding_def ascii_whitespace_def base64_value_def Let_def)

lemma base64ToArrayBuffer_examples:
  "base64ToArrayBuffer ''!!!!'' = Inl InvalidCharacterError"
  "base64ToArrayBuffer ''AAAA'' = Inr [0, 0, 0]"
  "base64ToArrayBuffer ''AAD/fw=='' = Inr [0, 0, 255, 127]"
  by (simp_all add: base64ToArrayBuffer_def atob_examples ArrayBuffer_def Let_def
        upt_rec [of 0] upt_rec [of 1] upt_rec [of 2] upt_rec [of 3] eval_nat_numeral)

lemma generateTTSAudio_null:
  assumes "fetchWithRetry w 0 = (Inr result, w1)"
      and "\<not> truthy (first_part result \<bind> inlineData \<bind> data) \<or>
           \<not> truthy (first_part result \<bind> inlineData \<bind> mimeType) \<or>
           (\<exists>mime. first_part result \<bind> inlineData \<bind> mimeType = Some mime \<and>
                   \<not> prefix ''audio/L16'' mime)"
  shows "generateTTSAudio w text voiceName = (Inr None, w1)"
  using assms by (auto simp: generateTTSAudio_def Let_def)

text \<open>
  Claim C3 says that a speech response whose audio data is missing or malformed, an
  undecodable payload included, gives \<^verbatim>\<open>null\<close> and never an exception. The code
  checks that the data and the MIME type are there and that the type starts with
  \<^verbatim>\<open>audio/L16\<close>, and then decodes outside any \<^verbatim>\<open>try\<close>: for the payload
  \<^verbatim>\<open>!!!!\<close>, which is not base64, \<^verbatim>\<open>atob\<close> throws, and for the payload
  \<^verbatim>\<open>AAAA\<close>, which decodes to three bytes, \<^verbatim>\<open>new Int16Array\<close> throws; both
  exceptions reach the caller.
\<close>

theorem generateTTSAudio_throws:
  "fst (generateTTSAudio (answering (speech_result (Some ''!!!!'') (Some ''audio/L16;rate=24000'')))
          ''hello'' ''Kore'') = Inl InvalidCharacterError \<and>
   fst (generateTTSAudio (answering (speech_result (Some ''AAAA'') (Some ''audio/L16;rate=24000'')))
          ''hello'' ''Kore'') = Inl RangeError"
  by (simp add: generateTTSAudio_def answering_run truthy_def base64ToArrayBuffer_examples
        Int16Array_def)

lemma fill_loop:
  "k \<le> length xs \<Longrightarrow>
     foldl (\<lambda>bytes i. bytes[i := f i]) xs [0..<k] = map f [0..<k] @ drop k xs"
proof (induction k)
  case 0
  then show ?case by simp
next
  case (Suc k)
  then have "k < length xs" by simp
  then have "(map f [0..<k] @ drop k xs)[k := f k] = map f [0..<k] @ f k # drop (Suc k) xs"
    by (simp add: list_update_append Cons_nth_drop_Suc [symmetric])
  with Suc show ?case by simp
qed

lemma map_charCodeAt:
  "map (\<lambda>i. f (xs ! i)) [0..<length xs] = map f xs"
  by (rule nth_equalityI) simp_all

lemma base64ToArrayBuffer_bytes:
  "atob base64 = Inr binaryString \<Longrightarrow>
     base64ToArrayBuffer base64 = Inr (map of_char binaryString)"
  by (simp add: base64ToArrayBuffer_def ArrayBuffer_def Let_def fill_loop map_charCodeAt)

lemma prefix_rate_overlap:
  assumes "prefix ''rate='' (xs @ ''rate='' @ ys)" and "xs \<noteq> []"
  shows "prefix ''rate='' xs"
proof (cases "5 \<le> length xs")
  case True
  have "prefix xs (xs @ ''rate='' @ ys)"
    by simp
  with assms(1) show ?thesis
    by (rule prefix_length_prefix) (use True in simp)
next
  case False
  moreover from assms(2) have "length xs \<noteq> 0"
    by simp
  ultimately have "length xs = 1 \<or> length xs = 2 \<or> length xs = 3 \<or> length xs = 4"
    by linarith
  then consider a where "xs = [a]" | a b where "xs = [a, b]" | a b c where "xs = [a, b, c]"
    | a b c d where "xs = [a, b, c, d]"
    by (auto simp: length_Suc_conv numeral_eq_Suc)
  then show ?thesis
    using assms(1) by cases auto
qed

lemma rateMatch_leftmost:
  assumes "\<nexists>p d q. before = p @ ''rate='' @ d # q \<and> digit d"
      and "digits \<noteq> []" and "\<forall>c \<in> set digits. digit c"
      and "rest = [] \<or> \<not> digit (hd rest)"
  shows "rateMatch (before @ ''rate='' @ digits @ rest) = Some digits"
  using assms(1)
proof (induction before)
  case Nil
  from assms(4) have "takeWhile digit rest = []"
    by (cases rest) auto
  with assms(2,3) show ?case
    by (simp add: takeWhile_append2)
next
  case (Cons c before)
  let ?cs = "before @ ''rate='' @ digits @ rest"
  have later: "\<nexists>p d q. before = p @ ''rate='' @ d # q \<and> digit d"
  proof (intro notI, elim exE conjE)
    fix p d q
    assume "before = p @ ''rate='' @ d # q" and "digit d"
    then have "c # before = (c # p) @ ''rate='' @ d # q \<and> digit d"
      by simp
    with Cons.prems show False
      by blast
  qed
  have no: "\<not> (prefix ''rate='' (c # ?cs) \<and> takeWhile digit (drop 5 (c # ?cs)) \<noteq> [])"
  proof
    assume a: "prefix ''rate='' (c # ?cs) \<and> takeWhile digit (drop 5 (c # ?cs)) \<noteq> []"
    then have "prefix ''rate='' (c # ?cs)" ..
    then have "prefix ''rate='' ((c # before) @ ''rate='' @ digits @ rest)"
      by (simp only: append_Cons)
    then have "prefix ''rate='' (c # before)"
      by (rule prefix_rate_overlap) simp
    then obtain q where q: "c # before = ''rate='' @ q"
      by (auto simp: prefix_def)
    then have eq: "c # ?cs = ''rate='' @ q @ ''rate='' @ digits @ rest"
      by (simp only: append_Cons [symmetric] append_assoc)
    from a have "takeWhile digit (drop 5 (c # ?cs)) \<noteq> []" ..
    then have "takeWhile digit (drop 5 (''rate='' @ q @ ''rate='' @ digits @ rest)) \<noteq> []"
      by (simp only: eq simp_thms)
    then have run: "takeWhile digit (q @ ''rate='' @ digits @ rest) \<noteq> []"
      by simp
    show False
    proof (cases q)
      case Nil
      with run show False
        by (simp add: digit_def)
    next
      case (Cons d q')
      with run have "digit d"
        by (simp split: if_splits)
      with q Cons have "c # before = [] @ ''rate='' @ d # q' \<and> digit d"
        by simp
      with Cons.prems show False
        by blast
    qed
  qed
  have "rateMatch ((c # before) @ ''rate='' @ digits @ rest) = rateMatch (c # ?cs)"
    by (simp only: append_Cons)
  also have "\<dots> = rateMatch ?cs"
    by (simp only: rateMatch.simps no if_False)
  also have "\<dots> = Some digits"
    by (rule Cons.IH [OF later])
  finally show ?case .
qed

lemma no_rate_without_r:
  assumes "CHR ''r'' \<notin> set s"
  shows "\<nexists>p d q. s = p @ ''rate='' @ d # q \<and> digit d"
proof (intro notI, elim exE conjE)
  fix p d q
  assume eq: "s = p @ ''rate='' @ d # q"
  have "CHR ''r'' \<in> set (p @ ''rate='' @ d # q)"
    by simp
  then have "CHR ''r'' \<in> set s"
    by (simp only: eq [symmetric])
  with assms show False
    by simp
qed

lemma rateMatch_absent:
  "\<nexists>before d rest. mime = before @ ''rate='' @ d # rest \<and> digit d \<Longrightarrow> rateMatch mime = None"
proof (induction mime)
  case Nil
  then show ?case by simp
next
  case (Cons c cs)
  have "rateMatch cs = None"
  proof (rule Cons.IH, rule notI)
    assume "\<exists>before d rest. cs = before @ ''rate='' @ d # rest \<and> digit d"
    then obtain before d rest where "cs = before @ ''rate='' @ d # rest" and "digit d"
      by blast
    then have "c # cs = (c # before) @ ''rate='' @ d # rest \<and> digit d"
      by simp
    with Cons.prems show False by blast
  qed
  moreover have "\<not> (prefix ''rate='' (c # cs) \<and> takeWhile digit (drop 5 (c # cs)) \<noteq> [])"
  proof
    assume a: "prefix ''rate='' (c # cs) \<and> takeWhile digit (drop 5 (c # cs)) \<noteq> []"
    then obtain tl where tl: "c # cs = ''rate='' @ tl"
      by (auto simp: prefix_def)
    with a have "takeWhile digit tl \<noteq> []"
      by simp
    then obtain d rest where "tl = d # rest" and "digit d"
      by (cases tl) (auto split: if_splits)
    with tl have "c # cs = [] @ ''rate='' @ d # rest \<and> digit d"
      by simp
    with Cons.prems show False by blast
  qed
  ultimately show ?case by simp
qed

lemma to_double_exact: "n < 2 ^ 53 \<Longrightarrow> to_double n = Finite n"
  by (simp add: to_double_def)

lemma digits_value_append:
  "digits_value (xs @ [c]) = 10 * digits_value xs + (of_char c - 48)"
  by (simp add: digits_value_def)

lemma digits_value_zeros: "digits_value (replicate k CHR ''0'' @ ds) = digits_value ds"
proof -
  have "foldl (\<lambda>n c. 10 * n + (of_char c - 48)) 0 (replicate k CHR ''0'') = (0 :: nat)"
    by (induction k) simp_all
  then show ?thesis
    by (simp add: digits_value_def)
qed

lemma of_char_digit: "d < 10 \<Longrightarrow> (of_char (char_of (48 + d)) :: nat) = 48 + d"
  by simp

lemma digits_value_decimal: "digits_value (decimal n) = n"
proof (induction n rule: decimal.induct)
  case (1 n)
  show ?case
  proof (cases "n < 10")
    case True
    then show ?thesis
      by (simp add: decimal.simps [of n] digits_value_def)
  next
    case False
    with "1.IH" have "digits_value (decimal (n div 10)) = n div 10"
      by simp
    moreover have "(of_char (char_of (48 + n mod 10)) :: nat) = 48 + n mod 10"
      by (rule of_char_digit) simp
    ultimately show ?thesis
      using False by (simp add: decimal.simps [of n] digits_value_append)
  qed
qed

lemma decimal_digits: "decimal n \<noteq> [] \<and> (\<forall>c \<in> set (decimal n). digit c)"
proof (induction n rule: decimal.induct)
  case (1 n)
  have last: "digit (char_of (48 + d))" if "d < 10" for d :: nat
    using that by (simp add: digit_def)
  show ?case
  proof (cases "n < 10")
    case True
    then show ?thesis
      by (simp add: decimal.simps [of n] last)
  next
    case False
    with "1.IH" have "\<forall>c \<in> set (decimal (n div 10)). digit c"
      by simp
    moreover have "digit (char_of (48 + n mod 10))"
      by (rule last) simp
    ultimately show ?thesis
      using False by (simp add: decimal.simps [of n])
  qed
qed

lemma parseInt_decimal:
  "n < 2 ^ 53 \<Longrightarrow> parseInt (replicate zeros CHR ''0'' @ decimal n) = Finite n"
  by (simp add: parseInt_def digits_value_zeros digits_value_decimal to_double_exact)

lemma generateTTSAudio_decoded:
  assumes "fetchWithRetry w 0 = (Inr result, w1)"
      and "first_part result \<bind> inlineData = Some \<lparr>data = Some audioData, mimeType = Some mime\<rparr>"
      and "audioData \<noteq> []" and "prefix ''audio/L16'' mime"
      and "base64ToArrayBuffer audioData = Inr pcmData" and "Int16Array pcmData = Inr pcm16"
  shows "generateTTSAudio w text voiceName =
      (case pcmToWav pcm16
              (case (case rateMatch mime of Some digits \<Rightarrow> parseInt digits | None \<Rightarrow> Finite 24000) of
                 Finite n \<Rightarrow> n | Infinity \<Rightarrow> 0) of
         None \<Rightarrow> (Inl RangeError, w1)
       | Some wavBlob \<Rightarrow> (Inr (Some wavBlob), w1))"
proof -
  from assms(4) have "mime \<noteq> []"
    by auto
  with assms show ?thesis
    by (auto simp: generateTTSAudio_def truthy_def Let_def bind_eq_Some_conv)
qed

lemma parseInt_example: "parseInt ''9007199254740993'' = Finite 9007199254740992"
proof -
  have "digits_value ''9007199254740993'' = 2 * 4503599627370496 + 1"
    by (simp add: digits_value_def)
  moreover have "bits (2 * 4503599627370496 + 1) = 54"
    by (simp add: bits.simps)
  ultimately show ?thesis
    by (simp add: parseInt_def to_double_def)
qed

text \<open>
  Claim C8 says that the sample rate \<open>N\<close> of the parameter \<^verbatim>\<open>rate=<N>\<close> is the one used.
  \<^verbatim>\<open>parseInt\<close> returns a double: for \<^verbatim>\<open>rate=9007199254740993\<close>, which is
  \<open>2 ^ 53 + 1\<close>, it returns \<open>2 ^ 53\<close>, and the sample rate field of the WAV, bytes 24 to
  27, holds 0, while for the sample rate \<open>2 ^ 53 + 1\<close> it would hold 1.
\<close>

theorem generateTTSAudio_sampleRate_counterexample:
  "fst (generateTTSAudio
          (answering (speech_result (Some ''AAD/fw=='') (Some ''audio/L16;rate=9007199254740993'')))
          ''hello'' ''Kore'')
     = Inr (Some [82, 73, 70, 70, 40, 0, 0, 0, 87, 65, 86, 69, 102, 109, 116, 32,
                  16, 0, 0, 0, 1, 0, 1, 0, 0, 0, 0, 0, 0, 0, 0, 0,
                  2, 0, 16, 0, 100, 97, 116, 97, 4, 0, 0, 0,
                  0, 0, 255, 127]) \<and>
   pcmToWav [0, 32767] 9007199254740993
     = Some [82, 73, 70, 70, 40, 0, 0, 0, 87, 65, 86, 69, 102, 109, 116, 32,
             16, 0, 0, 0, 1, 0, 1, 0, 1, 0, 0, 0, 2, 0, 0, 0,
             2, 0, 16, 0, 100, 97, 116, 97, 4, 0, 0, 0,
             0, 0, 255, 127]"
proof -
  have "rateMatch ''audio/L16;rate=9007199254740993'' = Some ''9007199254740993''"
    by (simp add: digit_def)
  moreover have "Int16Array [0, 0, 255, 127] = Inr [0, 32767]"
    by (simp add: Int16Array_def)
  moreover have "pcmToWav [0, 32767] 9007199254740992
     = Some [82, 73, 70, 70, 40, 0, 0, 0, 87, 65, 86, 69, 102, 109, 116, 32,
             16, 0, 0, 0, 1, 0, 1, 0, 0, 0, 0, 0, 0, 0, 0, 0,
             2, 0, 16, 0, 100, 97, 116, 97, 4, 0, 0, 0,
             0, 0, 255, 127]"
    by (simp add: pcmToWav_bytes wav_header_def payload_def raw32_def raw16_def)
  moreover have "pcmToWav [0, 32767] 9007199254740993
     = Some [82, 73, 70, 70, 40, 0, 0, 0, 87, 65, 86, 69, 102, 109, 116, 32,
             16, 0, 0, 0, 1, 0, 1, 0, 1, 0, 0, 0, 2, 0, 0, 0,
             2, 0, 16, 0, 100, 97, 116, 97, 4, 0, 0, 0,
             0, 0, 255, 127]"
    by (simp add: pcmToWav_bytes wav_header_def payload_def raw32_def raw16_def)
  ultimately show ?thesis
    by (simp add: generateTTSAudio_decoded [OF answering_run, where pcmData = "[0, 0, 255, 127]"]
          base64ToArrayBuffer_examples parseInt_example)
qed

text \<open>
  Claim C8 as amended: for every speech response whose MIME type starts with
  \<^verbatim>\<open>audio/L16\<close> and whose payload decodes to 16-bit samples, if the leftmost
  \<^verbatim>\<open>rate=\<close> that a digit follows is followed by the decimal digits of a number
  \<open>N < 2 ^ 53\<close>, with or without leading zeros, then the WAV is the encoding at the
  sample rate \<open>N\<close> and its sample rate field holds \<open>N mod 2 ^ 32\<close>; and if the MIME
  type has no \<^verbatim>\<open>rate=\<close> followed by a digit, the WAV is the encoding at 24000 Hz. For
  the MIME type \<^verbatim>\<open>audio/L16;rate=48000\<close> the sample rate field holds 48000.
\<close>

theorem generateTTSAudio_sampleRate:
  assumes "fetchWithRetry w 0 = (Inr result, w1)"
      and "first_part result \<bind> inlineData = Some \<lparr>data = Some audioData, mimeType = Some mime\<rparr>"
      and "audioData \<noteq> []" and "prefix ''audio/L16'' mime"
      and "base64ToArrayBuffer audioData = Inr pcmData" and "Int16Array pcmData = Inr pcm16"
  shows "(\<forall>before zeros N rest.
            mime = before @ ''rate='' @ (replicate zeros CHR ''0'' @ decimal N) @ rest \<and>
            (\<nexists>p d q. before = p @ ''rate='' @ d # q \<and> digit d) \<and>
            N < 2 ^ 53 \<and> (rest = [] \<or> \<not> digit (hd rest)) \<longrightarrow>
            (\<exists>wav. pcmToWav pcm16 N = Some wav \<and>
                   getUint32 wav 24 True = Some (N mod 2 ^ 32) \<and>
                   generateTTSAudio w text voiceName = (Inr (Some wav), w1)))
       \<and> ((\<nexists>before d rest. mime = before @ ''rate='' @ d # rest \<and> digit d) \<longrightarrow>
            (\<exists>wav. pcmToWav pcm16 24000 = Some wav \<and>
                   getUint32 wav 24 True = Some 24000 \<and>
                   generateTTSAudio w text voiceName = (Inr (Some wav), w1)))"
proof (intro conjI allI impI)
  note run = generateTTSAudio_decoded [OF assms]
  fix before zeros N rest
  let ?digits = "replicate zeros CHR ''0'' @ decimal N"
  assume a: "mime = before @ ''rate='' @ ?digits @ rest \<and>
            (\<nexists>p d q. before = p @ ''rate='' @ d # q \<and> digit d) \<and>
            N < 2 ^ 53 \<and> (rest = [] \<or> \<not> digit (hd rest))"
  have "?digits \<noteq> []" and "\<forall>c \<in> set ?digits. digit c"
    using decimal_digits [of N] by (auto simp: digit_def)
  with a have "rateMatch mime = Some ?digits"
    using rateMatch_leftmost [of before ?digits rest] by blast
  moreover from a have "parseInt ?digits = Finite N"
    by (simp add: parseInt_decimal)
  ultimately show "\<exists>wav. pcmToWav pcm16 N = Some wav \<and>
                   getUint32 wav 24 True = Some (N mod 2 ^ 32) \<and>
                   generateTTSAudio w text voiceName = (Inr (Some wav), w1)"
    unfolding run by (simp add: pcmToWav_bytes wav_fields)
next
  note run = generateTTSAudio_decoded [OF assms]
  assume "\<nexists>before d rest. mime = before @ ''rate='' @ d # rest \<and> digit d"
  then have "rateMatch mime = None"
    by (rule rateMatch_absent)
  then show "\<exists>wav. pcmToWav pcm16 24000 = Some wav \<and>
                   getUint32 wav 24 True = Some 24000 \<and>
                   generateTTSAudio w text voiceName = (Inr (Some wav), w1)"
    unfolding run by (simp add: pcmToWav_bytes wav_fields)
qed

theorem generateTTSAudio_sampleRate_witness:
  "(\<exists>wav. pcmToWav [0, 32767] 48000 = Some wav \<and> getUint32 wav 24 True = Some 48000 \<and>
      fst (generateTTSAudio (answering (speech_result (Some ''AAD/fw=='') (Some ''audio/L16;rate=48000'')))
             ''hello'' ''Kore'') = Inr (Some wav)) \<and>
   (\<exists>wav. pcmToWav [0, 32767] 24000 = Some wav \<and> getUint32 wav 24 True = Some 24000 \<and>
      fst (generateTTSAudio (answering (speech_result (Some ''AAD/fw=='') (Some ''audio/L16'')))
             ''hello'' ''Kore'') = Inr (Some wav))"
proof -
  let ?r = "\<lambda>m. speech_result (Some ''AAD/fw=='') (Some m)"
  have dec: "base64ToArrayBuffer ''AAD/fw=='' = Inr [0, 0, 255, 127]"
    by (simp add: base64ToArrayBuffer_examples)
  have arr: "Int16Array [0, 0, 255, 127] = Inr [0, 32767]"
    by (simp add: Int16Array_def)
  have part: "first_part (?r m) \<bind> inlineData
      = Some \<lparr>data = Some ''AAD/fw=='', mimeType = Some m\<rparr>" for m
    by simp
  have ne: "''AAD/fw=='' \<noteq> []"
    by simp
  have absent: "\<nexists>before d rest. ''audio/L16'' = before @ ''rate='' @ d # rest \<and> digit d"
    by (rule no_rate_without_r) simp
  have numeral: "decimal 48000 = ''48000''"
    by (simp add: decimal.simps char_of_eq_iff)
  have "\<nexists>p d q. ''audio/L16;'' = p @ ''rate='' @ d # q \<and> digit d"
    by (rule no_rate_without_r) simp
  then have present: "''audio/L16;rate=48000''
        = ''audio/L16;'' @ ''rate='' @ (replicate 0 CHR ''0'' @ decimal 48000) @ [] \<and>
      (\<nexists>p d q. ''audio/L16;'' = p @ ''rate='' @ d # q \<and> digit d) \<and>
      (48000 :: nat) < 2 ^ 53 \<and> ([] = [] \<or> \<not> digit (hd []))"
    by (simp add: numeral)
  have p1: "prefix ''audio/L16'' ''audio/L16;rate=48000''" and p2: "prefix ''audio/L16'' ''audio/L16''"
    by simp_all
  from generateTTSAudio_sampleRate [OF answering_run part ne p1 dec arr,
      THEN conjunct1, rule_format, OF present, of "''hello''" "''Kore''"]
  obtain wav1 where "pcmToWav [0, 32767] 48000 = Some wav1"
    and "getUint32 wav1 24 True = Some 48000"
    and "fst (generateTTSAudio (answering (?r ''audio/L16;rate=48000'')) ''hello'' ''Kore'')
          = Inr (Some wav1)"
    by auto
  moreover
  from generateTTSAudio_sampleRate [OF answering_run part ne p2 dec arr,
      THEN conjunct2, rule_format, OF absent, of "''hello''" "''Kore''"]
  obtain wav2 where "pcmToWav [0, 32767] 24000 = Some wav2"
    and "getUint32 wav2 24 True = Some 24000"
    and "fst (generateTTSAudio (answering (?r ''audio/L16'')) ''hello'' ''Kore'') = Inr (Some wav2)"
    by auto
  ultimately show ?thesis
    by (intro conjI exI [of _ wav1] exI [of _ wav2]) simp_all
qed

section \<open>Properties of the text, structured-content and image generators\<close>

text \<open>
  Claim C6 says that an attribution is dropped when it misses the \<^verbatim>\<open>uri\<close> or the
  \<^verbatim>\<open>title\<close> field, and that of one entry with both fields and one entry without
  \<^verbatim>\<open>uri\<close> exactly one source is returned. The filter
  \<^verbatim>\<open>source => source.uri && source.title\<close> also drops an entry whose field is the empty
  string: for \<open>untitled_result\<close>, whose first attribution has both fields and an empty
  title, no source is returned.
\<close>

theorem generateTextContent_sources_counterexample:
  "fst (generateTextContent (answering untitled_result) ''Capital of France?'' ''Be brief.'' True)
     = Inr \<lparr>reply_text = ''Paris.'', sources = []\<rparr>"
  by (simp add: generateTextContent_def answering_run untitled_result_def element_def truthy_def)

text \<open>
  Claim C6 as amended: for every text response whose first candidate has a non-empty text,
  \<^verbatim>\<open>generateTextContent\<close> returns that text together with the sources, in the order of
  the response, of exactly those grounding attributions whose \<^verbatim>\<open>web.uri\<close> and
  \<^verbatim>\<open>web.title\<close> are both present and non-empty; there are no sources when the
  grounding metadata or its attributions are missing. For \<open>grounded_result\<close>, with one
  complete entry and one entry without \<^verbatim>\<open>uri\<close>, the list has exactly one element.
\<close>

theorem generateTextContent_sources:
  assumes "fetchWithRetry w 0 = (Inr result, w1)"
      and "element (candidates result) 0 = Some candidate"
      and "content candidate \<bind> (\<lambda>c. element (parts c) 0) \<bind> text' = Some text"
      and "text \<noteq> []"
  shows "\<exists>srcs.
           generateTextContent w userQuery systemInstruction useGrounding
             = (Inr \<lparr>reply_text = text, sources = srcs\<rparr>, w1)
         \<and> (\<forall>s \<in> set srcs. \<exists>u t. uri s = Some u \<and> u \<noteq> [] \<and> title s = Some t \<and> t \<noteq> [])
         \<and> (case groundingMetadata candidate \<bind> groundingAttributions of
               None \<Rightarrow> srcs = []
             | Some attributions \<Rightarrow>
                 srcs = map (\<lambda>a. \<lparr>uri = web a \<bind> uri, title = web a \<bind> title\<rparr>)
                          (filter (\<lambda>a. truthy (web a \<bind> uri) \<and> truthy (web a \<bind> title))
                             attributions))"
  using assms
  by (auto simp: generateTextContent_def Let_def filter_map comp_def truthy_def
           split: option.splits)

theorem generateTextContent_sources_witness:
  "generateTextContent (answering grounded_result) ''Capital of France?'' ''Be brief.'' True
     = (Inr \<lparr>reply_text = ''Paris.'',
             sources = [\<lparr>uri = Some ''https://example.org/paris'', title = Some ''Paris''\<rparr>]\<rparr>,
        answering grounded_result\<lparr>fetched := 1\<rparr>) \<and>
   length [\<lparr>uri = Some ''https://example.org/paris'', title = Some ''Paris''\<rparr>] = 1"
  using generateTextContent_sources [OF answering_run, of grounded_result
          "\<lparr>content = Some \<lparr>parts = Some [\<lparr>text' = Some ''Paris.'', inlineData = None\<rparr>]\<rparr>,
            groundingMetadata = Some \<lparr>groundingAttributions = Some
              [\<lparr>web = Some \<lparr>uri = Some ''https://example.org/paris'', title = Some ''Paris''\<rparr>\<rparr>,
               \<lparr>web = Some \<lparr>uri = None, title = Some ''No link''\<rparr>\<rparr>]\<rparr>\<rparr>"
          "''Paris.''" "''Capital of France?''" "''Be brief.''" True]
  by (auto simp: grounded_result_def element_def truthy_def)

text \<open>
  Claim C7: for every response whose text is absent (or empty) or is rejected by
  \<^verbatim>\<open>JSON.parse\<close>, whatever \<^verbatim>\<open>JSON.parse\<close> is, the structured-content generator
  returns the one-element array whose element has type \<^verbatim>\<open>error\<close> and the two
  diagnostic messages; what the call returns is a value, not an exception.
\<close>

theorem generateStructuredStudyContent_error_item:
  assumes "fetchWithRetry w 0 = (Inr result, w1)"
      and "\<not> truthy (first_part result \<bind> text') \<or>
           (\<exists>jsonString e. first_part result \<bind> text' = Some jsonString \<and>
                            JSON_parse jsonString = Inl e)"
  shows "generateStructuredStudyContent JSON_parse w userQuery systemInstruction =
           (Inr (JArray [JObject [(''type'', JString ''error''),
                                  (''question'', JString ''Error generating study material.''),
                                  (''answer'', JString ''Please try again with a clearer prompt.'')]]),
            w1)"
  using assms
  by (auto simp: generateStructuredStudyContent_def Let_def error_item_def)

theorem generateStructuredStudyContent_error_item_witness:
  "generateStructuredStudyContent JSON_parse_literals (answering (text_result (Some ''not valid json'')))
       ''Photosynthesis flashcards'' ''You are a tutor.'' =
     (Inr (JArray [JObject [(''type'', JString ''error''),
                            (''question'', JString ''Error generating study material.''),
                            (''answer'', JString ''Please try again with a clearer prompt.'')]]),
      answering (text_result (Some ''not valid json''))\<lparr>fetched := 1\<rparr>) \<and>
   generateStructuredStudyContent JSON_parse_literals (answering (text_result None))
       ''Photosynthesis flashcards'' ''You are a tutor.'' =
     (Inr (JArray [JObject [(''type'', JString ''error''),
                            (''question'', JString ''Error generating study material.''),
                            (''answer'', JString ''Please try again with a clearer prompt.'')]]),
      answering (text_result None)\<lparr>fetched := 1\<rparr>)"
  using generateStructuredStudyContent_error_item [OF answering_run,
          of "text_result (Some ''not valid json'')" JSON_parse_literals
             "''Photosynthesis flashcards''" "''You are a tutor.''"]
        generateStructuredStudyContent_error_item [OF answering_run,
          of "text_result None" JSON_parse_literals
             "''Photosynthesis flashcards''" "''You are a tutor.''"]
  by (simp add: first_part_def text_result_def element_def truthy_def JSON_parse_literals_def)

lemma generateImageContent_result:
  assumes "fetchWithRetry w 0 = (Inr (Some result), w1)"
  shows "((predictions result = None \<or> predictions result = Some [] \<or>
           (\<exists>p. element (predictions result) 0 = Some (Some p) \<and> \<not> truthy (bytesBase64Encoded p))) \<longrightarrow>
            generateImageContent w prompt = (Inr None, w1))
       \<and> (\<forall>p b. element (predictions result) 0 = Some (Some p) \<and> bytesBase64Encoded p = Some b \<and> b \<noteq> [] \<longrightarrow>
            generateImageContent w prompt = (Inr (Some (''data:image/png;base64,'' @ b)), w1))"
  using assms
  by (auto simp: generateImageContent_def element_def truthy_def split: option.splits if_splits)

lemma generateImageContent_example:
  "fst (generateImageContent
          (answering (Some \<lparr>predictions = Some [Some \<lparr>bytesBase64Encoded = Some ''iVBORw0KGgo=''\<rparr>]\<rparr>))
          ''a red kite'') = Inr (Some ''data:image/png;base64,iVBORw0KGgo='') \<and>
   fst (generateImageContent (answering (Some \<lparr>predictions = None\<rparr>)) ''a red kite'') = Inr None"
  by (simp add: generateImageContent_def answering_run truthy_def)

text \<open>
  Claim C9 says that an image response without a \<^verbatim>\<open>predictions\<close> field, or whose
  predictions carry no base64 payload, gives \<^verbatim>\<open>null\<close> and never an exception. That is
  so when the body is an object and the first prediction, if there is one, is an object
  (\<open>generateImageContent_result\<close>). The code reads \<^verbatim>\<open>result.predictions\<close> and
  \<^verbatim>\<open>result.predictions[0].bytesBase64Encoded\<close> unguarded: when the body of the
  response is \<^verbatim>\<open>null\<close>, and when it is \<^verbatim>\<open>{"predictions": [null]}\<close>, the call throws a
  \<^verbatim>\<open>TypeError\<close>.
\<close>

theorem generateImageContent_throws:
  "fst (generateImageContent (answering None) ''a red kite'') = Inl TypeError \<and>
   fst (generateImageContent (answering (Some \<lparr>predictions = Some [None]\<rparr>)) ''a red kite'')
     = Inl TypeError"
  by (simp add: generateImageContent_def answering_run)

end
